theory Spec2Isabelle
  imports Complex_Main "HOL-Library.AList" "HOL-Library.Multiset"
begin

section \<open>Strings\<close>

text \<open>
  Python strings are modelled as \<open>string\<close> (lists of 8-bit characters). \<open>str.lower\<close>
  and \<open>str.upper\<close> are modelled on the ASCII letters, character by character; every
  other character is left as it is.
\<close>

definition lower_char :: "char \<Rightarrow> char" where
  "lower_char c =
     (let n = (of_char c :: nat) in if 65 \<le> n \<and> n \<le> 90 then char_of (n + 32) else c)"

definition upper_char :: "char \<Rightarrow> char" where
  "upper_char c =
     (let n = (of_char c :: nat) in if 97 \<le> n \<and> n \<le> 122 then char_of (n - 32) else c)"

definition lower :: "string \<Rightarrow> string" where
  "lower s = map lower_char s"

definition upper :: "string \<Rightarrow> string" where
  "upper s = map upper_char s"

text \<open>\<open>starts_with xs ys\<close>: the list \<open>ys\<close> begins with \<open>xs\<close>.\<close>

fun starts_with :: "'a list \<Rightarrow> 'a list \<Rightarrow> bool" where
  "starts_with [] ys = True"
| "starts_with (x # xs) [] = False"
| "starts_with (x # xs) (y # ys) = (x = y \<and> starts_with xs ys)"

text \<open>\<open>contains xs ys\<close> is Python's \<open>xs in ys\<close> on strings: \<open>xs\<close> occurs in \<open>ys\<close> as a
  contiguous piece.\<close>

fun contains :: "'a list \<Rightarrow> 'a list \<Rightarrow> bool" where
  "contains xs [] = (xs = [])"
| "contains xs (y # ys) = (starts_with xs (y # ys) \<or> contains xs ys)"


text \<open>\<open>sep.join(xs)\<close>.\<close>

fun join :: "string \<Rightarrow> string list \<Rightarrow> string" where
  "join sep [] = []"
| "join sep [x] = x"
| "join sep (x # y # ys) = x @ sep @ join sep (y # ys)"

text \<open>\<open>xs[:n]\<close> for an integer \<open>n\<close>: a negative \<open>n\<close> counts from the end.\<close>

definition slice_to :: "'a list \<Rightarrow> int \<Rightarrow> 'a list" where
  "slice_to xs n = (if 0 \<le> n then take (nat n) xs else take (length xs - nat (- n)) xs)"

text \<open>The decimal digits of a natural number, as \<open>str\<close> gives them.\<close>

definition digit_char :: "nat \<Rightarrow> char" where
  "digit_char d = char_of (48 + d)"

fun str_nat :: "nat \<Rightarrow> string" where
  "str_nat n = (if n < 10 then [digit_char n] else str_nat (n div 10) @ [digit_char (n mod 10)])"

text \<open>The format \<open>:.0f\<close>: the nearest integer, a tie going to the even one, and the sign
  of a negative value kept.\<close>

definition round_half_even :: "rat \<Rightarrow> int" where
  "round_half_even r =
     (let f = \<lfloor>r\<rfloor>; d = r - of_int f in
      if d < 1 / 2 then f else if 1 / 2 < d then f + 1 else if even f then f else f + 1)"

definition format_0f :: "rat \<Rightarrow> string" where
  "format_0f r =
     (if r < 0 then ''-'' @ str_nat (nat (round_half_even (- r)))
      else str_nat (nat (round_half_even r)))"

text \<open>\<open>re.sub(r'<[^>]+>', '', s)\<close>: scanning from the left, every \<open><\<close> that is followed
  by at least one character other than \<open>>\<close> and then by a \<open>>\<close> is removed together with
  everything up to that \<open>>\<close>.\<close>

function strip_tags :: "string \<Rightarrow> string" where
  "strip_tags [] = []"
| "strip_tags (c # cs) =
     (if c = CHR ''<'' \<and> takeWhile (\<lambda>x. x \<noteq> CHR ''>'') cs \<noteq> []
          \<and> dropWhile (\<lambda>x. x \<noteq> CHR ''>'') cs \<noteq> []
      then strip_tags (tl (dropWhile (\<lambda>x. x \<noteq> CHR ''>'') cs))
      else c # strip_tags cs)"
  by pat_completeness auto
termination
proof (relation "measure length")
  show "wf (measure length)" by simp
next
  fix c :: char and cs :: string
  have "length (tl (dropWhile (\<lambda>x. x \<noteq> CHR ''>'') cs)) \<le> length cs"
    using length_dropWhile_le [of "\<lambda>x. x \<noteq> CHR ''>''" cs] by simp
  then show "(tl (dropWhile (\<lambda>x. x \<noteq> CHR ''>'') cs), c # cs) \<in> measure length"
    by simp
next
  fix c :: char and cs :: string
  show "(cs, c # cs) \<in> measure length" by simp
qed

text \<open>The characters of the templates outside ASCII, in UTF-8.\<close>

definition dart :: string where
  "dart = [CHR 0xF0, CHR 0x9F, CHR 0x8E, CHR 0xAF]"

definition bullet :: string where
  "bullet = [CHR 0xE2, CHR 0x80, CHR 0xA2]"

definition triangle :: string where
  "triangle = [CHR 0xE2, CHR 0x96, CHR 0xB8]"


section \<open>Python values and \<open>int()\<close>\<close>

datatype py_error = ValueError | TypeError | AttributeError | RequestException

text \<open>A value a setting of \<open>config.json\<close> can hold: an integer, a number with a
  fraction (an exact rational here), a string, a truth value or \<open>null\<close>.\<close>

datatype py_value = PyInt int | PyFloat rat | PyStr string | PyBool bool | PyNone

definition is_space :: "char \<Rightarrow> bool" where
  "is_space c =
     (c \<in> set [CHR '' '', CHR 0x09, CHR 0x0A, CHR 0x0B, CHR 0x0C, CHR 0x0D,
                CHR 0x1C, CHR 0x1D, CHR 0x1E, CHR 0x1F])"

definition is_digit :: "char \<Rightarrow> bool" where
  "is_digit c = (48 \<le> (of_char c :: nat) \<and> (of_char c :: nat) \<le> 57)"

definition digit_val :: "char \<Rightarrow> nat" where
  "digit_val c = (of_char c :: nat) - 48"

definition strip :: "string \<Rightarrow> string" where
  "strip s = rev (dropWhile is_space (rev (dropWhile is_space s)))"

text \<open>The digits of a decimal literal after its first digit; a single underscore may
  stand between two digits.\<close>

fun more_digits :: "nat \<Rightarrow> string \<Rightarrow> nat option" where
  "more_digits acc [] = Some acc"
| "more_digits acc [c] = (if is_digit c then Some (10 * acc + digit_val c) else None)"
| "more_digits acc (c # d # ds) =
     (if is_digit c then more_digits (10 * acc + digit_val c) (d # ds)
      else if c = CHR ''_'' \<and> is_digit d then more_digits (10 * acc + digit_val d) ds
      else None)"

definition parse_nat :: "string \<Rightarrow> nat option" where
  "parse_nat s =
     (case s of [] \<Rightarrow> None
      | c # cs \<Rightarrow> if is_digit c then more_digits (digit_val c) cs else None)"

text \<open>\<open>int(s)\<close> on an ASCII string: blanks around, an optional sign, decimal digits.
  \<open>None\<close> stands for the \<open>ValueError\<close>. The interpreter's bound on the number of
  digits is left out.\<close>

definition parse_int :: "string \<Rightarrow> int option" where
  "parse_int s =
     (case strip s of
        [] \<Rightarrow> None
      | c # cs \<Rightarrow>
          if c = CHR ''-'' then map_option (\<lambda>n. - int n) (parse_nat cs)
          else if c = CHR ''+'' then map_option int (parse_nat cs)
          else map_option int (parse_nat (c # cs)))"

text \<open>\<open>int(v)\<close>: a number with a fraction is cut towards zero.\<close>

fun py_int :: "py_value \<Rightarrow> py_error + int" where
  "py_int (PyInt n) = Inr n"
| "py_int (PyFloat r) = Inr (if 0 \<le> r then \<lfloor>r\<rfloor> else \<lceil>r\<rceil>)"
| "py_int (PyStr s) = (case parse_int s of None \<Rightarrow> Inl ValueError | Some n \<Rightarrow> Inr n)"
| "py_int (PyBool b) = Inr (if b then 1 else 0)"
| "py_int PyNone = Inl TypeError"


section \<open>Data model\<close>

text \<open>A \<open>datetime\<close> is a point on a discrete time line, counted in microseconds.\<close>

type_synonym datetime = int

text \<open>
  The dataclass \<open>Article\<close>. Scores are sums of configured weights and halves of them;
  weights are JSON numbers and are modelled as exact rationals.
\<close>

record article =
  title :: string
  link :: string
  source :: string
  published :: "datetime option"
  summary :: string
  relevance_score :: rat
  matched_keywords :: "string list"
  category :: string

text \<open>\<open>RELEVANCE_KEYWORDS\<close> and \<open>CATEGORIES\<close> are dictionaries read in iteration order:
  association lists.\<close>

type_synonym relevance_keywords = "(string \<times> rat) list"
type_synonym categories = "(string \<times> string list) list"


section \<open>\<open>categorize\<close>\<close>

text \<open>The generator expression of \<open>categorize\<close>:
  \<open>sum(1 for kw in keywords if any(ck in kw.lower() for ck in category_keywords))\<close>.\<close>

definition category_score :: "string list \<Rightarrow> string list \<Rightarrow> nat" where
  "category_score keywords category_keywords =
     length (filter (\<lambda>kw. list_ex (\<lambda>ck. contains ck (lower kw)) category_keywords) keywords)"

text \<open>The loop filling the dictionary \<open>category_scores\<close>; \<open>AList.update\<close> is the
  assignment \<open>d[k] = v\<close>: a key already present keeps its place, a new key goes last.\<close>

fun fill_category_scores ::
  "categories \<Rightarrow> string list \<Rightarrow> (string \<times> nat) list \<Rightarrow> (string \<times> nat) list" where
  "fill_category_scores [] keywords category_scores = category_scores"
| "fill_category_scores ((cat, category_keywords) # rest) keywords category_scores =
     fill_category_scores rest keywords
       (AList.update cat (category_score keywords category_keywords) category_scores)"

text \<open>Python's \<open>max(iterable, key=...)\<close> on a non-empty iterable: the running best is
  replaced only by a strictly greater element.\<close>

fun max_by :: "('a \<Rightarrow> 'b::linorder) \<Rightarrow> 'a \<Rightarrow> 'a list \<Rightarrow> 'a" where
  "max_by key best [] = best"
| "max_by key best (x # xs) = max_by key (if key best < key x then x else best) xs"

text \<open>\<open>max(category_scores, key=category_scores.get)\<close> walks the keys of the dictionary
  and compares their values: here the items are walked and compared by their value.\<close>

definition categorize :: "categories \<Rightarrow> string list \<Rightarrow> string" where
  "categorize CATEGORIES keywords =
     (case fill_category_scores CATEGORIES keywords [] of
        [] \<Rightarrow> ''General''
      | first # others \<Rightarrow>
          (let best = max_by snd first others in
           if 0 < snd best then fst best else ''General''))"


section \<open>\<open>score_relevance\<close>\<close>

text \<open>The first loop of \<open>score_relevance\<close>, over the full text.\<close>

fun scan_text ::
  "relevance_keywords \<Rightarrow> string \<Rightarrow> rat \<Rightarrow> string list \<Rightarrow> rat \<times> string list" where
  "scan_text [] text score matched = (score, matched)"
| "scan_text ((keyword, weight) # rest) text score matched =
     (if contains (lower keyword) text
      then scan_text rest text (score + weight) (matched @ [keyword])
      else scan_text rest text score matched)"

text \<open>The second loop, over the title alone.\<close>

fun scan_title :: "relevance_keywords \<Rightarrow> string \<Rightarrow> rat \<Rightarrow> rat" where
  "scan_title [] title_lower score = score"
| "scan_title ((keyword, weight) # rest) title_lower score =
     (if contains (lower keyword) title_lower
      then scan_title rest title_lower (score + weight * (1 / 2))
      else scan_title rest title_lower score)"

definition score_relevance :: "relevance_keywords \<Rightarrow> categories \<Rightarrow> article \<Rightarrow> article" where
  "score_relevance RELEVANCE_KEYWORDS CATEGORIES a =
     (let text = lower (title a @ '' '' @ summary a);
          (score, matched) = scan_text RELEVANCE_KEYWORDS text 0 [];
          title_lower = lower (title a);
          score' = scan_title RELEVANCE_KEYWORDS title_lower score
      in a\<lparr>relevance_score := score',
            matched_keywords := matched,
            category := categorize CATEGORIES matched\<rparr>)"


section \<open>Configuration and surroundings\<close>

text \<open>The dictionary \<open>SETTINGS\<close>; \<open>None\<close> is a key that is absent. The settings used
  as counts and hours are integers where present.\<close>

record settings =
  lookback_hours :: "int option"
  max_articles_per_source :: "int option"
  max_articles_total :: "int option"
  min_relevance_score :: "py_value option"

text \<open>The module's globals, read from \<open>config.json\<close> when it is loaded.\<close>

record config =
  SETTINGS :: settings
  DAILY_SOURCES :: "(string \<times> string) list"
  WEEKLY_SOURCES :: "(string \<times> string) list"
  RELEVANCE_KEYWORDS :: relevance_keywords
  CATEGORIES :: categories

text \<open>An entry of a parsed feed. \<open>None\<close> is an attribute the entry does not have (for
  the two dates: or one that is empty); reading a missing \<open>title\<close> or \<open>link\<close> raises
  \<open>AttributeError\<close>.\<close>

record entry =
  entry_title :: "string option"
  entry_link :: "string option"
  published_parsed :: "datetime option"
  updated_parsed :: "datetime option"
  entry_summary :: "string option"
  entry_description :: "string option"

text \<open>What the program reads from outside: \<open>http_get url\<close> is the outcome of
  \<open>requests.get\<close>, \<open>raise_for_status\<close> and \<open>feedparser.parse\<close> for a feed address, either
  the error raised or the entries of the feed; \<open>clock\<close> is \<open>datetime.now()\<close>, read as
  one value for the whole run;
  \<open>strftime d fmt\<close> is the library's date formatting; \<open>MIN_RELEVANCE_SCORE\<close> is the
  environment variable of that name.\<close>

record world =
  http_get :: "string \<Rightarrow> py_error + entry list"
  clock :: datetime
  strftime :: "datetime \<Rightarrow> string \<Rightarrow> string"
  MIN_RELEVANCE_SCORE :: "string option"


section \<open>\<open>fetch_feed\<close>\<close>

text \<open>\<open>timedelta(hours=h)\<close> in microseconds.\<close>

definition hours :: "int \<Rightarrow> int" where
  "hours h = h * 3600000000"

text \<open>The loop over the entries, inside the \<open>try\<close>: the articles appended so far, and
  the exception that ended the loop, if any.\<close>

fun read_entries ::
  "string \<Rightarrow> datetime \<Rightarrow> entry list \<Rightarrow> article list \<Rightarrow> article list \<times> py_error option" where
  "read_entries source_name cutoff_time [] articles = (articles, None)"
| "read_entries source_name cutoff_time (e # rest) articles =
     (let pub_date = (case published_parsed e of Some d \<Rightarrow> Some d | None \<Rightarrow> updated_parsed e) in
      if (case pub_date of Some d \<Rightarrow> d < cutoff_time | None \<Rightarrow> False)
      then read_entries source_name cutoff_time rest articles
      else
        (let summary_text =
           (case entry_summary e of
              Some s \<Rightarrow> take 500 (strip_tags s)
            | None \<Rightarrow>
                (case entry_description e of Some s \<Rightarrow> take 500 (strip_tags s) | None \<Rightarrow> []))
         in case entry_title e of
              None \<Rightarrow> (articles, Some AttributeError)
            | Some t \<Rightarrow>
                (case entry_link e of
                   None \<Rightarrow> (articles, Some AttributeError)
                 | Some l \<Rightarrow>
                     read_entries source_name cutoff_time rest
                       (articles @
                          [\<lparr>title = t, link = l, source = source_name, published = pub_date,
                            summary = summary_text, relevance_score = 0, matched_keywords = [],
                            category = ''General''\<rparr>]))))"

text \<open>The body of the \<open>try\<close> of \<open>fetch_feed\<close>, with the exception it raised, if any.\<close>

definition fetch_feed_try ::
  "world \<Rightarrow> settings \<Rightarrow> string \<Rightarrow> string \<Rightarrow> int \<Rightarrow> article list \<times> py_error option" where
  "fetch_feed_try w sts source_name feed_url lookback =
     (let max_per_source = (case max_articles_per_source sts of Some n \<Rightarrow> n | None \<Rightarrow> 10) in
      case http_get w feed_url of
        Inl e \<Rightarrow> ([], Some e)
      | Inr entries \<Rightarrow>
          read_entries source_name (clock w - hours lookback)
            (slice_to entries max_per_source) [])"

text \<open>\<open>fetch_feed\<close>: the exception is logged and the list \<open>articles\<close> is returned.\<close>

definition fetch_feed :: "world \<Rightarrow> settings \<Rightarrow> string \<Rightarrow> string \<Rightarrow> int \<Rightarrow> article list" where
  "fetch_feed w sts source_name feed_url lookback =
     fst (fetch_feed_try w sts source_name feed_url lookback)"


section \<open>\<open>fetch_all_sources\<close>\<close>

text \<open>The loops over the sources, extending \<open>all_articles\<close>.\<close>

fun fetch_sources ::
  "world \<Rightarrow> settings \<Rightarrow> (string \<times> string) list \<Rightarrow> int \<Rightarrow> article list \<Rightarrow> article list" where
  "fetch_sources w sts [] lookback articles = articles"
| "fetch_sources w sts ((source_name, feed_url) # rest) lookback articles =
     fetch_sources w sts rest lookback
       (articles @ fetch_feed w sts source_name feed_url lookback)"

definition all_articles :: "world \<Rightarrow> config \<Rightarrow> bool \<Rightarrow> article list" where
  "all_articles w cfg include_weekly =
     (let lookback = (case lookback_hours (SETTINGS cfg) of Some h \<Rightarrow> h | None \<Rightarrow> 24);
          daily = fetch_sources w (SETTINGS cfg) (DAILY_SOURCES cfg) lookback []
      in if include_weekly
         then fetch_sources w (SETTINGS cfg) (WEEKLY_SOURCES cfg) 168 daily
         else daily)"

text \<open>\<open>scored = [score_relevance(a) for a in all_articles]\<close>.\<close>

definition scored :: "world \<Rightarrow> config \<Rightarrow> bool \<Rightarrow> article list" where
  "scored w cfg include_weekly =
     map (score_relevance (RELEVANCE_KEYWORDS cfg) (CATEGORIES cfg))
       (all_articles w cfg include_weekly)"

text \<open>\<open>int(os.environ.get("MIN_RELEVANCE_SCORE", SETTINGS.get("min_relevance_score", 5)))\<close>.\<close>

definition min_score :: "world \<Rightarrow> config \<Rightarrow> py_error + int" where
  "min_score w cfg =
     py_int (case MIN_RELEVANCE_SCORE w of
               Some s \<Rightarrow> PyStr s
             | None \<Rightarrow>
                 (case min_relevance_score (SETTINGS cfg) of Some v \<Rightarrow> v | None \<Rightarrow> PyInt 5))"

text \<open>\<open>[a for a in scored if a.relevance_score >= min_score]\<close>.\<close>

definition relevant :: "int \<Rightarrow> article list \<Rightarrow> article list" where
  "relevant m xs = filter (\<lambda>a. of_int m \<le> relevance_score a) xs"

text \<open>\<open>list.sort(key=lambda x: x.relevance_score, reverse=True)\<close>: the library's sort is
  stable, also when reversed; it is modelled by the stable insertion sort on the negated
  key.\<close>

definition sort_reverse :: "article list \<Rightarrow> article list" where
  "sort_reverse xs = sort_key (\<lambda>x. - relevance_score x) xs"

definition fetch_all_sources :: "world \<Rightarrow> config \<Rightarrow> bool \<Rightarrow> py_error + article list" where
  "fetch_all_sources w cfg include_weekly =
     (case min_score w cfg of
        Inl e \<Rightarrow> Inl e
      | Inr m \<Rightarrow>
          (let max_articles = (case max_articles_total (SETTINGS cfg) of Some n \<Rightarrow> n | None \<Rightarrow> 25)
           in Inr (slice_to (sort_reverse (relevant m (scored w cfg include_weekly)))
                     max_articles)))"


section \<open>The digests\<close>

text \<open>Filling the dictionary \<open>by_category\<close>: a category seen for the first time gets an
  empty list, then the article is appended to the list of its category.\<close>

fun group_by_category ::
  "article list \<Rightarrow> (string \<rightharpoonup> article list) \<Rightarrow> (string \<rightharpoonup> article list)" where
  "group_by_category [] by_category = by_category"
| "group_by_category (a # rest) by_category =
     group_by_category rest
       (case by_category (category a) of
          None \<Rightarrow> by_category(category a \<mapsto> [a])
        | Some l \<Rightarrow> by_category(category a \<mapsto> l @ [a]))"

definition category_order :: "string list" where
  "category_order =
     [''Higher Ed Specific'', ''Strategy & Leadership'', ''Policy & Governance'',
      ''Enterprise Tech'', ''AI/ML Developments'', ''General'']"

text \<open>The head of the HTML page; \<open>today\<close> is the formatted date and \<open>n\<close> the number of
  articles in decimal.\<close>

definition html_head :: "string \<Rightarrow> string \<Rightarrow> string" where
  \<open>html_head today n = concat
    [''\<newline>'',
     ''<!DOCTYPE html>\<newline>'',
     ''<html>\<newline>'',
     ''<head>\<newline>'',
     ''    <meta charset="utf-8">\<newline>'',
     ''    <style>\<newline>'',
     ''        body {\<newline>'',
     ''            font-family: -apple-system, BlinkMacSystemFont, 'Segoe UI', Roboto, 'Helvetica Neue', Arial, sans-serif;\<newline>'',
     ''            line-height: 1.6;\<newline>'',
     ''            color: #333;\<newline>'',
     ''            max-width: 700px;\<newline>'',
     ''            margin: 0 auto;\<newline>'',
     ''            padding: 20px;\<newline>'',
     ''            background-color: #f5f5f5;\<newline>'',
     ''        }\<newline>'',
     ''        .container {\<newline>'',
     ''            background-color: white;\<newline>'',
     ''            border-radius: 8px;\<newline>'',
     ''            padding: 30px;\<newline>'',
     ''            box-shadow: 0 2px 4px rgba(0,0,0,0.1);\<newline>'',
     ''        }\<newline>'',
     ''        h1 {\<newline>'',
     ''            color: #1a365d;\<newline>'',
     ''            border-bottom: 3px solid #3182ce;\<newline>'',
     ''            padding-bottom: 10px;\<newline>'',
     ''            margin-bottom: 5px;\<newline>'',
     ''        }\<newline>'',
     ''        .subtitle {\<newline>'',
     ''            color: #666;\<newline>'',
     ''            font-size: 14px;\<newline>'',
     ''            margin-bottom: 25px;\<newline>'',
     ''        }\<newline>'',
     ''        h2 {\<newline>'',
     ''            color: #2c5282;\<newline>'',
     ''            font-size: 18px;\<newline>'',
     ''            margin-top: 30px;\<newline>'',
     ''            margin-bottom: 15px;\<newline>'',
     ''            padding: 8px 12px;\<newline>'',
     ''            background-color: #ebf8ff;\<newline>'',
     ''            border-left: 4px solid #3182ce;\<newline>'',
     ''            border-radius: 0 4px 4px 0;\<newline>'',
     ''        }\<newline>'',
     ''        .article {\<newline>'',
     ''            margin-bottom: 20px;\<newline>'',
     ''            padding-bottom: 15px;\<newline>'',
     ''            border-bottom: 1px solid #e2e8f0;\<newline>'',
     ''        }\<newline>'',
     ''        .article:last-child {\<newline>'',
     ''            border-bottom: none;\<newline>'',
     ''        }\<newline>'',
     ''        .article-title {\<newline>'',
     ''            font-size: 16px;\<newline>'',
     ''            font-weight: 600;\<newline>'',
     ''            margin-bottom: 5px;\<newline>'',
     ''        }\<newline>'',
     ''        .article-title a {\<newline>'',
     ''            color: #2b6cb0;\<newline>'',
     ''            text-decoration: none;\<newline>'',
     ''        }\<newline>'',
     ''        .article-title a:hover {\<newline>'',
     ''            text-decoration: underline;\<newline>'',
     ''        }\<newline>'',
     ''        .article-meta {\<newline>'',
     ''            font-size: 12px;\<newline>'',
     ''            color: #718096;\<newline>'',
     ''            margin-bottom: 8px;\<newline>'',
     ''        }\<newline>'',
     ''        .source {\<newline>'',
     ''            background-color: #e2e8f0;\<newline>'',
     ''            padding: 2px 8px;\<newline>'',
     ''            border-radius: 12px;\<newline>'',
     ''            font-weight: 500;\<newline>'',
     ''        }\<newline>'',
     ''        .score {\<newline>'',
     ''            color: #38a169;\<newline>'',
     ''            font-weight: 600;\<newline>'',
     ''        }\<newline>'',
     ''        .summary {\<newline>'',
     ''            font-size: 14px;\<newline>'',
     ''            color: #4a5568;\<newline>'',
     ''        }\<newline>'',
     ''        .keywords {\<newline>'',
     ''            font-size: 11px;\<newline>'',
     ''            color: #a0aec0;\<newline>'',
     ''            margin-top: 5px;\<newline>'',
     ''        }\<newline>'',
     ''        .footer {\<newline>'',
     ''            margin-top: 30px;\<newline>'',
     ''            padding-top: 20px;\<newline>'',
     ''            border-top: 1px solid #e2e8f0;\<newline>'',
     ''            font-size: 12px;\<newline>'',
     ''            color: #a0aec0;\<newline>'',
     ''            text-align: center;\<newline>'',
     ''        }\<newline>'',
     ''        .no-articles {\<newline>'',
     ''            color: #718096;\<newline>'',
     ''            font-style: italic;\<newline>'',
     ''            padding: 20px;\<newline>'',
     ''            text-align: center;\<newline>'',
     ''        }\<newline>'',
     ''    </style>\<newline>'',
     ''</head>\<newline>'',
     ''<body>\<newline>'',
     ''    <div class="container">\<newline>'',
     ''        <h1>'' @ dart @ '' Enterprise AI Daily Briefing</h1>\<newline>'',
     ''        <div class="subtitle">\<newline>'',
     ''            Higher Education Focus '' @ bullet @ '' '' @ today @ '' '' @ bullet @ '' '' @ n @ '' high-signal items\<newline>'',
     ''        </div>\<newline>'']\<close>

definition html_no_articles :: string where
  \<open>html_no_articles =
     ''<div class="no-articles">No high-relevance articles found today. Check back tomorrow!</div>''\<close>

definition html_article :: "world \<Rightarrow> article \<Rightarrow> string" where
  \<open>html_article w a =
     (let pub_str = (case published a of Some d \<Rightarrow> strftime w d ''%b %d, %I:%M %p'' | None \<Rightarrow> ''Recent'');
          summary_text = take 300 (summary a) @ (if 300 < length (summary a) then ''...'' else []);
          keywords_text = join '', '' (take 5 (matched_keywords a))
      in concat
        [''\<newline>'',
         ''        <div class="article">\<newline>'',
         ''            <div class="article-title">\<newline>'',
         ''                <a href="'' @ link a @ ''" target="_blank">'' @ title a @ ''</a>\<newline>'',
         ''            </div>\<newline>'',
         ''            <div class="article-meta">\<newline>'',
         ''                <span class="source">'' @ source a @ ''</span> '' @ bullet @ '' '' @ pub_str @ '' '' @ bullet @ '' \<newline>'',
         ''                <span class="score">Relevance: '' @ format_0f (relevance_score a) @ ''</span>\<newline>'',
         ''            </div>\<newline>'',
         ''            <div class="summary">'' @ summary_text @ ''</div>\<newline>'',
         ''            <div class="keywords">Tags: '' @ keywords_text @ ''</div>\<newline>'',
         ''        </div>\<newline>''])\<close>

definition html_footer :: string where
  \<open>html_footer = concat
    [''\<newline>'',
     ''        <div class="footer">\<newline>'',
     ''            Generated by Enterprise AI News Aggregator<br>\<newline>'',
     ''            Focused on: AI Strategy '' @ bullet @ '' Policy '' @ bullet @ '' Higher Education '' @ bullet @ '' Enterprise Deployment\<newline>'',
     ''        </div>\<newline>'',
     ''    </div>\<newline>'',
     ''</body>\<newline>'',
     ''</html>\<newline>'']\<close>

text \<open>The loop over \<open>category_order\<close> of \<open>generate_html_digest\<close>.\<close>

fun html_categories ::
  "world \<Rightarrow> (string \<rightharpoonup> article list) \<Rightarrow> string list \<Rightarrow> string \<Rightarrow> string" where
  "html_categories w by_category [] html = html"
| "html_categories w by_category (cat # rest) html =
     html_categories w by_category rest
       (case by_category cat of
          None \<Rightarrow> html
        | Some found \<Rightarrow> html @ ''<h2>'' @ cat @ ''</h2>'' @ concat (map (html_article w) found))"

definition generate_html_digest :: "world \<Rightarrow> article list \<Rightarrow> string" where
  "generate_html_digest w articles =
     (let by_category = group_by_category articles Map.empty;
          html = html_head (strftime w (clock w) ''%A, %B %d, %Y'') (str_nat (length articles));
          html' = (if articles = [] then html @ html_no_articles
                   else html_categories w by_category category_order html)
      in html' @ html_footer)"

definition text_article :: "world \<Rightarrow> article \<Rightarrow> string list" where
  \<open>text_article w a =
     (let pub_str = (case published a of Some d \<Rightarrow> strftime w d ''%b %d'' | None \<Rightarrow> ''Recent'')
      in [''\<newline>'' @ bullet @ '' '' @ title a,
          ''  ['' @ source a @ ''] '' @ pub_str @ '' | Score: '' @ format_0f (relevance_score a),
          ''  '' @ link a])\<close>

text \<open>The loop over \<open>category_order\<close> of \<open>generate_text_digest\<close>.\<close>

fun text_categories ::
  "world \<Rightarrow> (string \<rightharpoonup> article list) \<Rightarrow> string list \<Rightarrow> string list \<Rightarrow> string list" where
  "text_categories w by_category [] lines = lines"
| "text_categories w by_category (cat # rest) lines =
     text_categories w by_category rest
       (case by_category cat of
          None \<Rightarrow> lines
        | Some found \<Rightarrow>
            lines @ [''\<newline>'' @ triangle @ '' '' @ upper cat, replicate 40 (CHR ''-'')]
              @ concat (map (text_article w) found))"

definition generate_text_digest :: "world \<Rightarrow> article list \<Rightarrow> string" where
  "generate_text_digest w articles =
     (let lines =
            [replicate 60 (CHR ''=''),
             ''ENTERPRISE AI DAILY BRIEFING'',
             ''Higher Education Focus '' @ bullet @ '' '' @ strftime w (clock w) ''%A, %B %d, %Y'',
             str_nat (length articles) @ '' high-signal items'',
             replicate 60 (CHR ''=''),
             []];
          by_category = group_by_category articles Map.empty;
          lines' = text_categories w by_category category_order lines
      in join ''\<newline>'' (lines' @ [''\<newline>'' @ replicate 60 (CHR ''='')]))"


section \<open>Sample inputs\<close>

definition ex_keywords :: relevance_keywords where
  "ex_keywords = [(''AI'', 10), (''policy'', 5), (''campus'', 2)]"

definition ex_categories :: categories where
  "ex_categories =
     [(''Policy & Governance'', [''policy'', ''governance'']),
      (''AI/ML Developments'', [''ai'']),
      (''Higher Ed Specific'', [''campus''])]"

definition ex_entry1 :: entry where
  "ex_entry1 =
     \<lparr>entry_title = Some ''AI on campus'', entry_link = Some ''http://a/1'',
      published_parsed = None, updated_parsed = None,
      entry_summary = Some ''<p>New AI tools</p>'', entry_description = None\<rparr>"

definition ex_entry2 :: entry where
  "ex_entry2 =
     \<lparr>entry_title = Some ''Board news'', entry_link = Some ''http://a/2'',
      published_parsed = None, updated_parsed = None,
      entry_summary = Some ''A new policy'', entry_description = None\<rparr>"

definition ex_untitled :: entry where
  "ex_untitled =
     \<lparr>entry_title = None, entry_link = Some ''http://b/2'',
      published_parsed = None, updated_parsed = None,
      entry_summary = None, entry_description = Some ''Untitled item''\<rparr>"

text \<open>One feed answers, one answers with an entry that has no title, every other
  address fails.\<close>

definition ex_world :: world where
  "ex_world =
     \<lparr>http_get = (\<lambda>url. if url = ''http://a'' then Inr [ex_entry1, ex_entry2]
                       else if url = ''http://b'' then Inr [ex_entry2, ex_untitled, ex_entry1]
                       else Inl RequestException),
      clock = 0,
      strftime = (\<lambda>d fmt. ''Wednesday, November 04, 2026''),
      MIN_RELEVANCE_SCORE = None\<rparr>"

definition ex_settings :: settings where
  "ex_settings =
     \<lparr>lookback_hours = None, max_articles_per_source = None, max_articles_total = None,
      min_relevance_score = Some (PyFloat (11 / 2))\<rparr>"

definition ex_config :: config where
  "ex_config =
     \<lparr>SETTINGS = ex_settings,
      DAILY_SOURCES = [(''Down'', ''http://down''), (''A'', ''http://a'')],
      WEEKLY_SOURCES = [],
      RELEVANCE_KEYWORDS = ex_keywords,
      CATEGORIES = ex_categories\<rparr>"

definition ex_article1 :: article where
  "ex_article1 =
     \<lparr>title = ''AI on campus'', link = ''http://a/1'', source = ''A'', published = None,
      summary = ''New AI tools'', relevance_score = 18, matched_keywords = [''AI'', ''campus''],
      category = ''AI/ML Developments''\<rparr>"

definition ex_article2 :: article where
  "ex_article2 =
     \<lparr>title = ''Board news'', link = ''http://a/2'', source = ''A'', published = None,
      summary = ''A new policy'', relevance_score = 5, matched_keywords = [''policy''],
      category = ''Policy & Governance''\<rparr>"

text \<open>An article as \<open>fetch_feed\<close> builds it, before scoring.\<close>

definition raw_article :: "string \<Rightarrow> string \<Rightarrow> article" where
  "raw_article t s =
     \<lparr>title = t, link = ''http://x'', source = ''X'', published = None, summary = s,
      relevance_score = 0, matched_keywords = [], category = ''General''\<rparr>"


section \<open>Substrings\<close>

lemma starts_with_iff: "starts_with xs ys \<longleftrightarrow> (\<exists>ss. ys = xs @ ss)"
  by (induction xs ys rule: starts_with.induct) auto

lemma contains_iff: "contains xs ys \<longleftrightarrow> (\<exists>ps ss. ys = ps @ xs @ ss)"
proof (induction ys)
  case Nil
  show ?case by auto
next
  case (Cons y ys)
  have "(\<exists>ps ss. y # ys = ps @ xs @ ss) \<longleftrightarrow>
        (\<exists>ss. y # ys = xs @ ss) \<or> (\<exists>ps ss. ys = ps @ xs @ ss)"
  proof
    assume "\<exists>ps ss. y # ys = ps @ xs @ ss"
    then obtain ps ss where e: "y # ys = ps @ xs @ ss" by blast
    show "(\<exists>ss. y # ys = xs @ ss) \<or> (\<exists>ps ss. ys = ps @ xs @ ss)"
    proof (cases ps)
      case Nil
      with e show ?thesis by auto
    next
      case (Cons p ps')
      with e have "ys = ps' @ xs @ ss" by simp
      then show ?thesis by blast
    qed
  next
    assume "(\<exists>ss. y # ys = xs @ ss) \<or> (\<exists>ps ss. ys = ps @ xs @ ss)"
    then show "\<exists>ps ss. y # ys = ps @ xs @ ss"
    proof
      assume "\<exists>ss. y # ys = xs @ ss"
      then obtain ss where "y # ys = [] @ xs @ ss" by auto
      then show ?thesis by blast
    next
      assume "\<exists>ps ss. ys = ps @ xs @ ss"
      then obtain ps ss where "y # ys = (y # ps) @ xs @ ss" by auto
      then show ?thesis by blast
    qed
  qed
  with Cons show ?case by (simp add: starts_with_iff)
qed

lemma contains_append_right: "contains xs ys \<Longrightarrow> contains xs (ys @ zs)"
proof -
  assume "contains xs ys"
  then obtain ps ss where "ys = ps @ xs @ ss" by (auto simp: contains_iff)
  then have "ys @ zs = ps @ xs @ (ss @ zs)" by simp
  then show ?thesis unfolding contains_iff by blast
qed

lemma lower_append: "lower (xs @ ys) = lower xs @ lower ys"
  by (simp add: lower_def)


section \<open>The scorer\<close>

lemma scan_text_eq:
  "scan_text kws hay score matched =
     (score + sum_list (map snd (filter (\<lambda>(k, w). contains (lower k) hay) kws)),
      matched @ map fst (filter (\<lambda>(k, w). contains (lower k) hay) kws))"
  by (induction kws hay score matched rule: scan_text.induct) (auto simp: algebra_simps)

lemma scan_title_eq:
  "scan_title kws t score =
     score + (1 / 2) * sum_list (map snd (filter (\<lambda>(k, w). contains (lower k) t) kws))"
  by (induction kws t score rule: scan_title.induct) (auto simp: algebra_simps)

lemma relevance_score_eq:
  "relevance_score (score_relevance kws cats a) =
     sum_list (map snd
       (filter (\<lambda>(k, w). contains (lower k) (lower (title a @ '' '' @ summary a))) kws))
     + (1 / 2) * sum_list (map snd
       (filter (\<lambda>(k, w). contains (lower k) (lower (title a))) kws))"
  by (simp add: score_relevance_def scan_text_eq scan_title_eq Let_def)

lemma matched_keywords_eq:
  "matched_keywords (score_relevance kws cats a) =
     map fst (filter (\<lambda>(k, w). contains (lower k) (lower (title a @ '' '' @ summary a))) kws)"
  by (simp add: score_relevance_def scan_text_eq Let_def)

text \<open>
  C1. For every article and every relevance configuration, \<open>score_relevance\<close> sets
  \<open>relevance_score\<close> to the sum of the weights of the configured keywords whose lowercase
  form occurs in the lowercase text \<open>title + " " + summary\<close>, plus one half of the weight
  of every configured keyword whose lowercase form occurs in the lowercase title; and
  \<open>matched_keywords\<close> is exactly the list of keywords found in the full text, in the
  order of the configuration. The pass over the title adds nothing to that list.
\<close>

theorem score_relevance_sum:
  "relevance_score (score_relevance kws cats a) =
     sum_list (map snd
       (filter (\<lambda>(k, w). contains (lower k) (lower (title a @ '' '' @ summary a))) kws))
     + (1 / 2) * sum_list (map snd
       (filter (\<lambda>(k, w). contains (lower k) (lower (title a))) kws))
   \<and> matched_keywords (score_relevance kws cats a) =
     map fst (filter (\<lambda>(k, w). contains (lower k) (lower (title a @ '' '' @ summary a))) kws)"
  by (simp add: relevance_score_eq matched_keywords_eq)

text \<open>
  C9. The title bonus never goes to a keyword that is missing from
  \<open>matched_keywords\<close>: a keyword whose lowercase form occurs in the lowercase title also
  occurs in the lowercase text \<open>title + " " + summary\<close>, so every configured keyword that
  earns the bonus is in \<open>matched_keywords\<close>.
\<close>

theorem title_match_is_text_match:
  "(contains (lower k) (lower (title a)) \<longrightarrow>
      contains (lower k) (lower (title a @ '' '' @ summary a)))
   \<and> ((k, w) \<in> set kws \<and> contains (lower k) (lower (title a)) \<longrightarrow>
      k \<in> set (matched_keywords (score_relevance kws cats a)))"
proof -
  have 1: "contains (lower k) (lower (title a @ '' '' @ summary a))"
    if "contains (lower k) (lower (title a))"
    using that by (simp add: lower_append contains_append_right)
  have 2: "k \<in> set (matched_keywords (score_relevance kws cats a))"
    if "(k, w) \<in> set kws" "contains (lower k) (lower (title a))"
  proof -
    have "(k, w) \<in> set (filter (\<lambda>(k, w). contains (lower k)
            (lower (title a @ '' '' @ summary a))) kws)"
      using that 1 by simp
    then have "fst (k, w) \<in> set (map fst (filter (\<lambda>(k, w). contains (lower k)
            (lower (title a @ '' '' @ summary a))) kws))"
      by force
    then show ?thesis
      by (simp add: matched_keywords_eq)
  qed
  from 1 2 show ?thesis by blast
qed


text \<open>The keyword \<open>AI\<close> of the sample configuration, found in a title.\<close>

theorem title_match_is_text_match_witness:
  "(''AI'', 10) \<in> set ex_keywords
   \<and> contains (lower ''AI'') (lower (title (raw_article ''AI on campus'' ''New tools'')))
   \<and> contains (lower ''AI'')
       (lower (title (raw_article ''AI on campus'' ''New tools'') @ '' ''
               @ summary (raw_article ''AI on campus'' ''New tools'')))
   \<and> ''AI'' \<in> set (matched_keywords
       (score_relevance ex_keywords ex_categories (raw_article ''AI on campus'' ''New tools'')))"
proof -
  have h1: "(''AI'', 10) \<in> set ex_keywords"
    by (simp add: ex_keywords_def)
  have h2: "contains (lower ''AI'') (lower (title (raw_article ''AI on campus'' ''New tools'')))"
    by (simp add: raw_article_def lower_def lower_char_def)
  show ?thesis
    using title_match_is_text_match
      [of "''AI''" "raw_article ''AI on campus'' ''New tools''" 10 ex_keywords ex_categories]
      h1 h2
    by blast
qed


section \<open>The categorizer\<close>

lemma update_fresh: "k \<notin> fst ` set al \<Longrightarrow> AList.update k v al = al @ [(k, v)]"
  by (induction al) auto

lemma fill_category_scores_distinct:
  "distinct (map fst cats) \<Longrightarrow> fst ` set cats \<inter> fst ` set acc = {} \<Longrightarrow>
   fill_category_scores cats kws acc =
     acc @ map (\<lambda>(c, ks). (c, category_score kws ks)) cats"
proof (induction cats kws acc rule: fill_category_scores.induct)
  case (1 kwds category_scores)
  show ?case by simp
next
  case (2 cat category_keywords rest kwds category_scores)
  have fresh: "cat \<notin> fst ` set category_scores"
    using "2.prems"(2) by auto
  have d: "distinct (map fst rest)" and n: "cat \<notin> fst ` set rest"
    using "2.prems"(1) by auto
  have "fst ` set rest \<inter>
        fst ` set (AList.update cat (category_score kwds category_keywords) category_scores) = {}"
    using "2.prems"(2) n by (auto simp: update_fresh [OF fresh])
  from "2.IH" [OF d this] show ?case
    by (simp add: update_fresh [OF fresh])
qed

lemma max_by_mem: "max_by key b xs \<in> set (b # xs)"
  by (induction xs arbitrary: b) (auto split: if_splits)

lemma max_by_ge: "y \<in> set (b # xs) \<Longrightarrow> key y \<le> key (max_by key b xs)"
proof (induction xs arbitrary: b y)
  case Nil
  then show ?case by simp
next
  case (Cons x xs)
  let ?b = "if key b < key x then x else b"
  have b: "key b \<le> key (max_by key ?b xs)" and x: "key x \<le> key (max_by key ?b xs)"
    using Cons.IH [of ?b ?b] by (auto split: if_splits intro: order_trans less_imp_le)
  from Cons.prems consider "y = b" | "y = x" | "y \<in> set xs" by auto
  then show ?case
  proof cases
    case 1 with b show ?thesis by simp
  next
    case 2 with x show ?thesis by simp
  next
    case 3 then show ?thesis using Cons.IH [of y ?b] by simp
  qed
qed

lemma max_by_first:
  "find (\<lambda>y. key y = key (max_by key b xs)) (b # xs) = Some (max_by key b xs)"
proof (induction xs arbitrary: b)
  case Nil
  show ?case by simp
next
  case (Cons x xs)
  show ?case
  proof (cases "key b < key x")
    case True
    define m where "m = max_by key x xs"
    have step: "max_by key b (x # xs) = m" using True by (simp add: m_def)
    have IH: "find (\<lambda>y. key y = key m) (x # xs) = Some m"
      unfolding m_def by (rule Cons.IH)
    have "key x \<le> key m" unfolding m_def using max_by_ge [of x x xs key] by simp
    with True have "key b \<noteq> key m" by auto
    with IH show ?thesis unfolding step by simp
  next
    case False
    define m where "m = max_by key b xs"
    have step: "max_by key b (x # xs) = m" using False by (simp add: m_def)
    have IH: "find (\<lambda>y. key y = key m) (b # xs) = Some m"
      unfolding m_def by (rule Cons.IH)
    have ge: "key b \<le> key m" unfolding m_def using max_by_ge [of b b xs key] by simp
    show ?thesis
    proof (cases "key b = key m")
      case True
      with IH show ?thesis unfolding step by simp
    next
      case neq: False
      with ge False have "key x \<noteq> key m" by auto
      with IH neq show ?thesis unfolding step by simp
    qed
  qed
qed

lemma categorize_Nil: "categorize [] keywords = ''General''"
  by (simp add: categorize_def)

lemma categorize_Cons:
  assumes "distinct (map fst (p # cats))"
  shows "categorize (p # cats) keywords =
     (let best = max_by snd (fst p, category_score keywords (snd p))
                   (map (\<lambda>(c, ks). (c, category_score keywords ks)) cats)
      in if 0 < snd best then fst best else ''General'')"
  using fill_category_scores_distinct [OF assms, of "[]" "keywords"]
  by (simp add: categorize_def split_beta)

text \<open>
  C3. For every list of matched keywords and every category configuration (a dictionary:
  no category is listed twice), \<open>categorize\<close> returns the category with the greatest
  count of matched keywords containing one of its fragments, and of several such
  categories the first in the order of the configuration; when every count is 0, and so
  when the list of matched keywords is empty, it returns \<open>General\<close>.
\<close>

theorem categorize_first_maximum:
  assumes "distinct (map fst cats)"
  shows "(keywords = [] \<longrightarrow> categorize cats keywords = ''General'')
    \<and> ((\<forall>i < length cats. category_score keywords (snd (cats ! i)) = 0) \<longrightarrow>
         categorize cats keywords = ''General'')
    \<and> ((\<exists>i < length cats. 0 < category_score keywords (snd (cats ! i))) \<longrightarrow>
         (\<exists>i < length cats.
            categorize cats keywords = fst (cats ! i)
            \<and> (\<forall>j < length cats.
                 category_score keywords (snd (cats ! j)) \<le> category_score keywords (snd (cats ! i)))
            \<and> (\<forall>j < i.
                 category_score keywords (snd (cats ! j)) < category_score keywords (snd (cats ! i)))))"
proof (cases cats)
  case Nil
  then show ?thesis by (simp add: categorize_Nil)
next
  case (Cons p rest)
  define sc where "sc = map (\<lambda>(c, ks). (c, category_score keywords ks)) cats"
  define best where "best = max_by snd (hd sc) (tl sc)"
  have sc: "sc = (fst p, category_score keywords (snd p))
                 # map (\<lambda>(c, ks). (c, category_score keywords ks)) rest"
    by (simp add: sc_def Cons split_beta)
  have len: "length sc = length cats" by (simp add: sc_def)
  have nth: "sc ! i = (fst (cats ! i), category_score keywords (snd (cats ! i)))"
    if "i < length cats" for i
    using that by (simp add: sc_def split_beta)
  have cat: "categorize cats keywords = (if 0 < snd best then fst best else ''General'')"
    using categorize_Cons [of p rest "keywords"] assms
    by (simp add: Cons best_def sc Let_def)
  have mem: "best \<in> set sc"
    using max_by_mem [of snd "hd sc" "tl sc"] by (simp add: best_def sc)
  have ge: "snd y \<le> snd best" if "y \<in> set sc" for y
    using max_by_ge [of y "hd sc" "tl sc" snd] that by (simp add: best_def sc)
  have "find (\<lambda>y. snd y = snd best) sc = Some best"
    using max_by_first [of snd "hd sc" "tl sc"] by (simp add: best_def sc)
  then obtain i where i: "i < length sc" "best = sc ! i"
    and first: "\<forall>j < i. snd (sc ! j) \<noteq> snd best"
    by (auto simp: find_Some_iff)
  have all_le: "category_score keywords (snd (cats ! j)) \<le> snd best" if "j < length cats" for j
  proof -
    have "sc ! j \<in> set sc" using that len by simp
    from ge [OF this] nth [OF that] show ?thesis by simp
  qed
  have best_i: "snd best = category_score keywords (snd (cats ! i))" "fst best = fst (cats ! i)"
    using i nth [of i] len by simp_all
  have 1: "categorize cats keywords = ''General''" if "keywords = []"
  proof -
    have "snd best = 0" using that best_i by (simp add: category_score_def)
    with cat show ?thesis by simp
  qed
  have 2: "categorize cats keywords = ''General''"
    if "\<forall>i < length cats. category_score keywords (snd (cats ! i)) = 0"
  proof -
    have "snd best = 0" using that best_i i len by simp
    with cat show ?thesis by simp
  qed
  have 3: "\<exists>i < length cats.
            categorize cats keywords = fst (cats ! i)
            \<and> (\<forall>j < length cats.
                 category_score keywords (snd (cats ! j)) \<le> category_score keywords (snd (cats ! i)))
            \<and> (\<forall>j < i.
                 category_score keywords (snd (cats ! j)) < category_score keywords (snd (cats ! i)))"
    if "\<exists>i < length cats. 0 < category_score keywords (snd (cats ! i))"
  proof -
    from that obtain k where k: "k < length cats" "0 < category_score keywords (snd (cats ! k))"
      by blast
    with all_le [of k] have pos: "0 < snd best" by simp
    have lt: "category_score keywords (snd (cats ! j)) < category_score keywords (snd (cats ! i))"
      if "j < i" for j
    proof -
      have j: "j < length cats" using that i len by simp
      have "snd (sc ! j) \<noteq> snd best" using first that by blast
      with nth [OF j] all_le [OF j] best_i show ?thesis by simp
    qed
    have c: "categorize cats keywords = fst (cats ! i)"
      using cat pos best_i by simp
    have le: "\<forall>j < length cats.
        category_score keywords (snd (cats ! j)) \<le> category_score keywords (snd (cats ! i))"
      using all_le best_i by simp
    have "i < length cats" using i(1) len by simp
    with c le lt show ?thesis by blast
  qed
  from 1 2 3 show ?thesis by blast
qed

text \<open>The sample categories, for no keyword, for a keyword that no fragment matches,
  and for two keywords that make two categories tie.\<close>

theorem categorize_first_maximum_witness:
  "distinct (map fst ex_categories)
   \<and> categorize ex_categories [] = ''General''
   \<and> length ex_categories = 3
   \<and> category_score [''budget''] (snd (ex_categories ! 0)) = 0
   \<and> category_score [''budget''] (snd (ex_categories ! 1)) = 0
   \<and> category_score [''budget''] (snd (ex_categories ! 2)) = 0
   \<and> categorize ex_categories [''budget''] = ''General''
   \<and> 0 < category_score [''AI'', ''campus''] (snd (ex_categories ! 1))
   \<and> categorize ex_categories [''AI'', ''campus''] = ''AI/ML Developments''"
proof -
  have d: "distinct (map fst ex_categories)"
    by (simp add: ex_categories_def)
  have len: "length ex_categories = 3"
    by (simp add: ex_categories_def)
  have z0: "category_score [''budget''] (snd (ex_categories ! 0)) = 0"
    and z1: "category_score [''budget''] (snd (ex_categories ! 1)) = 0"
    and z2: "category_score [''budget''] (snd (ex_categories ! 2)) = 0"
    by code_simp+
  have z: "\<forall>i < length ex_categories. category_score [''budget''] (snd (ex_categories ! i)) = 0"
  proof (intro allI impI)
    fix i assume "i < length ex_categories"
    with len consider "i = 0" | "i = 1" | "i = 2" by linarith
    then show "category_score [''budget''] (snd (ex_categories ! i)) = 0"
      using z0 z1 z2 by cases simp_all
  qed
  have c0: "category_score [''AI'', ''campus''] (snd (ex_categories ! 0)) = 0"
    and c1: "category_score [''AI'', ''campus''] (snd (ex_categories ! 1)) = 1"
    and c2: "category_score [''AI'', ''campus''] (snd (ex_categories ! 2)) = 1"
    by code_simp+
  have e: "\<exists>i < length ex_categories. 0 < category_score [''AI'', ''campus''] (snd (ex_categories ! i))"
    using c1 len by (intro exI [of _ 1]) simp
  have 1: "categorize ex_categories [] = ''General''"
    using categorize_first_maximum [OF d, of "[]"] by simp
  have 2: "categorize ex_categories [''budget''] = ''General''"
    using categorize_first_maximum [OF d, of "[''budget'']"] z by blast
  from categorize_first_maximum [OF d, of "[''AI'', ''campus'']"] e
  obtain i where i: "i < length ex_categories"
    and r: "categorize ex_categories [''AI'', ''campus''] = fst (ex_categories ! i)"
    and mx: "\<forall>j < length ex_categories.
       category_score [''AI'', ''campus''] (snd (ex_categories ! j))
         \<le> category_score [''AI'', ''campus''] (snd (ex_categories ! i))"
    and fs: "\<forall>j < i.
       category_score [''AI'', ''campus''] (snd (ex_categories ! j))
         < category_score [''AI'', ''campus''] (snd (ex_categories ! i))"
    by blast
  from i len consider "i = 0" | "i = 1" | "i = 2" by linarith
  then have "i = 1"
  proof cases
    case 1
    with mx [rule_format, of 1] len c0 c1 show ?thesis by simp
  next
    case 2
    then show ?thesis .
  next
    case 3
    with fs [rule_format, of 1] c1 c2 show ?thesis by simp
  qed
  with r have 3: "categorize ex_categories [''AI'', ''campus''] = ''AI/ML Developments''"
    by (simp add: ex_categories_def)
  from c1 have p: "0 < category_score [''AI'', ''campus''] (snd (ex_categories ! 1))"
    by simp
  from d 1 len z0 z1 z2 2 p 3 show ?thesis by blast
qed


section \<open>The threshold\<close>

text \<open>
  C8. Filtering is monotonic in the threshold: for every list of scored articles and
  thresholds \<open>m1 \<le> m2\<close>, every article that passes the filter at \<open>m2\<close> passes it at
  \<open>m1\<close>; the articles kept at \<open>m2\<close> are those kept at \<open>m1\<close>, filtered again.
\<close>

theorem filter_monotone:
  "m1 \<le> m2 \<Longrightarrow>
     set (relevant m2 xs) \<subseteq> set (relevant m1 xs)
     \<and> relevant m2 xs = relevant m2 (relevant m1 xs)"
proof -
  assume "m1 \<le> m2"
  then have le: "(of_int m1 :: rat) \<le> of_int m2" by simp
  have both: "(of_int m1 \<le> relevance_score a \<and> of_int m2 \<le> relevance_score a)
        = (of_int m2 \<le> relevance_score a)" for a
    using le by auto
  have "relevant m2 xs = relevant m2 (relevant m1 xs)"
    by (simp add: relevant_def both)
  moreover have "set (relevant m2 xs) \<subseteq> set (relevant m1 xs)"
    using le by (auto simp: relevant_def)
  ultimately show ?thesis by simp
qed

text \<open>Two thresholds on the two scored sample articles.\<close>

theorem filter_monotone_witness:
  "(3::int) \<le> 10
   \<and> set (relevant 10 [ex_article1, ex_article2]) \<subseteq> set (relevant 3 [ex_article1, ex_article2])
   \<and> relevant 10 [ex_article1, ex_article2] = [ex_article1]
   \<and> relevant 3 [ex_article1, ex_article2] = [ex_article1, ex_article2]"
proof -
  have h: "(3::int) \<le> 10" by simp
  have "relevant 10 [ex_article1, ex_article2] = [ex_article1]"
    and "relevant 3 [ex_article1, ex_article2] = [ex_article1, ex_article2]"
    by (simp_all add: relevant_def ex_article1_def ex_article2_def)
  with h filter_monotone [OF h, of "[ex_article1, ex_article2]"] show ?thesis by simp
qed


section \<open>Monotonicity of the score\<close>

lemma sum_list_filter_mono:
  fixes f :: "'a \<Rightarrow> rat"
  assumes "\<forall>x \<in> set xs. 0 \<le> f x" and "\<forall>x \<in> set xs. P x \<longrightarrow> Q x"
  shows "sum_list (map f (filter P xs)) \<le> sum_list (map f (filter Q xs))"
  using assms by (induction xs) (auto intro: add_increasing)

text \<open>
  C5, as the code has it. Under one configuration whose weights are all non-negative:
  when every configured keyword matched in the text of article \<open>a\<close> is matched in the
  text of article \<open>b\<close>, and every configured keyword found in the title of \<open>a\<close> is found
  in the title of \<open>b\<close>, the score of \<open>a\<close> is at most the score of \<open>b\<close>.
\<close>

theorem score_monotone:
  assumes w: "\<forall>(k, w) \<in> set kws. 0 \<le> w"
    and m: "set (matched_keywords (score_relevance kws cats a))
            \<subseteq> set (matched_keywords (score_relevance kws cats b))"
    and t: "\<forall>(k, w) \<in> set kws.
              contains (lower k) (lower (title a)) \<longrightarrow> contains (lower k) (lower (title b))"
  shows "relevance_score (score_relevance kws cats a)
         \<le> relevance_score (score_relevance kws cats b)"
proof -
  let ?ha = "lower (title a @ '' '' @ summary a)" and ?hb = "lower (title b @ '' '' @ summary b)"
  have nonneg: "\<forall>x \<in> set kws. 0 \<le> snd x" using w by auto
  have hay: "\<forall>x \<in> set kws. (case x of (k, w) \<Rightarrow> contains (lower k) ?ha)
               \<longrightarrow> (case x of (k, w) \<Rightarrow> contains (lower k) ?hb)"
  proof (intro ballI impI)
    fix x assume x: "x \<in> set kws" and c: "case x of (k, w) \<Rightarrow> contains (lower k) ?ha"
    then have "fst x \<in> set (matched_keywords (score_relevance kws cats a))"
      by (force simp: matched_keywords_eq split_beta)
    with m have "fst x \<in> set (matched_keywords (score_relevance kws cats b))" by blast
    then show "case x of (k, w) \<Rightarrow> contains (lower k) ?hb"
      by (auto simp: matched_keywords_eq split_beta)
  qed
  have ttl: "\<forall>x \<in> set kws. (case x of (k, w) \<Rightarrow> contains (lower k) (lower (title a)))
               \<longrightarrow> (case x of (k, w) \<Rightarrow> contains (lower k) (lower (title b)))"
    using t by auto
  have 1: "sum_list (map snd (filter (\<lambda>(k, w). contains (lower k) ?ha) kws))
           \<le> sum_list (map snd (filter (\<lambda>(k, w). contains (lower k) ?hb) kws))"
    by (rule sum_list_filter_mono [OF nonneg hay])
  have 2: "sum_list (map snd (filter (\<lambda>(k, w). contains (lower k) (lower (title a))) kws))
           \<le> sum_list (map snd (filter (\<lambda>(k, w). contains (lower k) (lower (title b))) kws))"
    by (rule sum_list_filter_mono [OF nonneg ttl])
  from 1 2 show ?thesis
    by (simp add: relevance_score_eq add_mono)
qed

text \<open>
  Inclusion of the matched keywords alone does not order the scores. With positive
  weights, an article matching one keyword in its title scores 15 while an article matching
  that keyword and one more in its summary scores 11; with a negative weight, matching one
  more keyword lowers the score from 10 to 7.
\<close>

theorem score_not_monotone:
  "set (matched_keywords (score_relevance [(''ai'', 10), (''policy'', 1)] [] (raw_article ''ai'' '''')))
     \<subseteq> set (matched_keywords
         (score_relevance [(''ai'', 10), (''policy'', 1)] [] (raw_article ''x'' ''ai policy'')))
   \<and> relevance_score (score_relevance [(''ai'', 10), (''policy'', 1)] [] (raw_article ''x'' ''ai policy''))
     < relevance_score (score_relevance [(''ai'', 10), (''policy'', 1)] [] (raw_article ''ai'' ''''))
   \<and> set (matched_keywords (score_relevance [(''ai'', 10), (''hype'', - 3)] [] (raw_article ''x'' ''ai'')))
     \<subseteq> set (matched_keywords
         (score_relevance [(''ai'', 10), (''hype'', - 3)] [] (raw_article ''x'' ''ai hype'')))
   \<and> relevance_score (score_relevance [(''ai'', 10), (''hype'', - 3)] [] (raw_article ''x'' ''ai hype''))
     < relevance_score (score_relevance [(''ai'', 10), (''hype'', - 3)] [] (raw_article ''x'' ''ai''))"
  by (simp add: relevance_score_eq matched_keywords_eq raw_article_def lower_def lower_char_def)

text \<open>Two sample articles with both inclusions.\<close>

theorem score_monotone_witness:
  "list_all (\<lambda>(k, w). 0 \<le> w) ex_keywords
   \<and> set (matched_keywords (score_relevance ex_keywords ex_categories (raw_article ''AI today'' ''news'')))
     \<subseteq> set (matched_keywords
         (score_relevance ex_keywords ex_categories (raw_article ''AI policy'' ''on campus'')))
   \<and> list_all (\<lambda>(k, w).
        contains (lower k) (lower (title (raw_article ''AI today'' ''news'')))
        \<longrightarrow> contains (lower k) (lower (title (raw_article ''AI policy'' ''on campus''))))
       ex_keywords
   \<and> relevance_score (score_relevance ex_keywords ex_categories (raw_article ''AI today'' ''news'')) = 15
   \<and> relevance_score (score_relevance ex_keywords ex_categories (raw_article ''AI policy'' ''on campus'')) = 49 / 2
   \<and> relevance_score (score_relevance ex_keywords ex_categories (raw_article ''AI today'' ''news''))
     \<le> relevance_score (score_relevance ex_keywords ex_categories (raw_article ''AI policy'' ''on campus''))"
proof -
  have w: "\<forall>(k, w) \<in> set ex_keywords. 0 \<le> w"
    by (simp add: ex_keywords_def)
  have m: "set (matched_keywords (score_relevance ex_keywords ex_categories (raw_article ''AI today'' ''news'')))
     \<subseteq> set (matched_keywords
         (score_relevance ex_keywords ex_categories (raw_article ''AI policy'' ''on campus'')))"
    by (simp add: matched_keywords_eq ex_keywords_def raw_article_def lower_def lower_char_def)
  have t: "\<forall>(k, w) \<in> set ex_keywords.
        contains (lower k) (lower (title (raw_article ''AI today'' ''news'')))
        \<longrightarrow> contains (lower k) (lower (title (raw_article ''AI policy'' ''on campus'')))"
    by (simp add: ex_keywords_def raw_article_def lower_def lower_char_def)
  have a: "relevance_score (score_relevance ex_keywords ex_categories (raw_article ''AI today'' ''news'')) = 15"
    by (simp add: relevance_score_eq ex_keywords_def raw_article_def lower_def lower_char_def)
  have b: "relevance_score (score_relevance ex_keywords ex_categories (raw_article ''AI policy'' ''on campus'')) = 49 / 2"
    by (simp add: relevance_score_eq ex_keywords_def raw_article_def lower_def lower_char_def)
  from w m t a b score_monotone [OF w m t] show ?thesis
    unfolding list_all_iff by blast
qed


section \<open>Sources that fail\<close>

lemma fetch_sources_eq:
  "fetch_sources w sts srcs lookback acc =
     acc @ concat (map (\<lambda>(source_name, feed_url). fetch_feed w sts source_name feed_url lookback) srcs)"
  by (induction w sts srcs lookback acc rule: fetch_sources.induct) simp_all

lemma fetch_feed_failed:
  "http_get w feed_url = Inl e \<Longrightarrow> fetch_feed w sts source_name feed_url lookback = []"
  by (simp add: fetch_feed_def fetch_feed_try_def)

lemma concat_map_filter_empty:
  "\<forall>x \<in> set xs. \<not> P x \<longrightarrow> f x = [] \<Longrightarrow> concat (map f (filter P xs)) = concat (map f xs)"
  by (induction xs) auto

lemma fetch_sources_answering:
  "fetch_sources w sts (filter (\<lambda>(source_name, feed_url). \<not> isl (http_get w feed_url)) srcs) lookback acc
     = fetch_sources w sts srcs lookback acc"
proof -
  have "\<forall>x \<in> set srcs. \<not> (case x of (source_name, feed_url) \<Rightarrow> \<not> isl (http_get w feed_url))
          \<longrightarrow> (case x of (source_name, feed_url) \<Rightarrow> fetch_feed w sts source_name feed_url lookback) = []"
    by (auto simp: isl_def fetch_feed_failed)
  from concat_map_filter_empty [OF this] show ?thesis
    by (simp add: fetch_sources_eq)
qed

lemma all_articles_answering:
  "all_articles w
     (cfg\<lparr>DAILY_SOURCES := filter (\<lambda>(source_name, feed_url). \<not> isl (http_get w feed_url)) (DAILY_SOURCES cfg),
          WEEKLY_SOURCES := filter (\<lambda>(source_name, feed_url). \<not> isl (http_get w feed_url)) (WEEKLY_SOURCES cfg)\<rparr>)
     include_weekly
   = all_articles w cfg include_weekly"
  by (simp add: all_articles_def fetch_sources_answering Let_def)

text \<open>
  C6, as the code has it. A source whose request, status check or parsing raises
  contributes zero articles, and no source aborts the run: \<open>fetch_all_sources\<close> returns
  what it returns when the sources that raised are taken out of the configuration, that
  is the scored articles of the other sources, filtered, sorted and cut; it fails only
  when the conversion of the minimum score fails.
\<close>

theorem failed_sources_contribute_nothing:
  "(http_get w feed_url = Inl e \<longrightarrow> fetch_feed w sts source_name feed_url lookback = [])
   \<and> fetch_all_sources w cfg include_weekly =
       fetch_all_sources w
         (cfg\<lparr>DAILY_SOURCES :=
                 filter (\<lambda>(source_name, feed_url). \<not> isl (http_get w feed_url)) (DAILY_SOURCES cfg),
              WEEKLY_SOURCES :=
                 filter (\<lambda>(source_name, feed_url). \<not> isl (http_get w feed_url)) (WEEKLY_SOURCES cfg)\<rparr>)
         include_weekly
   \<and> (fetch_all_sources w cfg include_weekly = Inl err \<longleftrightarrow> min_score w cfg = Inl err)"
proof -
  have 1: "fetch_feed w sts source_name feed_url lookback = []" if "http_get w feed_url = Inl e"
    using that by (rule fetch_feed_failed)
  have 2: "fetch_all_sources w cfg include_weekly =
       fetch_all_sources w
         (cfg\<lparr>DAILY_SOURCES :=
                 filter (\<lambda>(source_name, feed_url). \<not> isl (http_get w feed_url)) (DAILY_SOURCES cfg),
              WEEKLY_SOURCES :=
                 filter (\<lambda>(source_name, feed_url). \<not> isl (http_get w feed_url)) (WEEKLY_SOURCES cfg)\<rparr>)
         include_weekly"
    by (simp add: fetch_all_sources_def scored_def min_score_def all_articles_answering
        cong: sum.case_cong option.case_cong)
  have 3: "fetch_all_sources w cfg include_weekly = Inl err \<longleftrightarrow> min_score w cfg = Inl err"
    by (simp add: fetch_all_sources_def Let_def split: sum.splits)
  from 1 2 3 show ?thesis by blast
qed

text \<open>
  An error need not leave a source without articles: in the sample feed whose second
  entry has no title, reading that entry raises \<open>AttributeError\<close> and the article of
  the first entry is returned.
\<close>

theorem entry_error_keeps_articles:
  "fetch_feed_try ex_world ex_settings ''B'' ''http://b'' 24
     = ([\<lparr>title = ''Board news'', link = ''http://a/2'', source = ''B'', published = None,
          summary = ''A new policy'', relevance_score = 0, matched_keywords = [],
          category = ''General''\<rparr>], Some AttributeError)
   \<and> fetch_feed ex_world ex_settings ''B'' ''http://b'' 24 \<noteq> []"
  by code_simp

text \<open>The sample run: one source is down, the other gives two articles.\<close>

lemma ex_fetch: "fetch_all_sources ex_world ex_config False = Inr [ex_article1, ex_article2]"
  by code_simp

text \<open>The sample run with and without the source that is down.\<close>

theorem failed_sources_contribute_nothing_witness:
  "http_get ex_world ''http://down'' = Inl RequestException
   \<and> fetch_feed ex_world ex_settings ''Down'' ''http://down'' 24 = []
   \<and> DAILY_SOURCES ex_config = [(''Down'', ''http://down''), (''A'', ''http://a'')]
   \<and> fetch_all_sources ex_world ex_config False
       = fetch_all_sources ex_world (ex_config\<lparr>DAILY_SOURCES := [(''A'', ''http://a'')]\<rparr>) False
   \<and> fetch_all_sources ex_world ex_config False = Inr [ex_article1, ex_article2]"
proof -
  have h: "http_get ex_world ''http://down'' = Inl RequestException"
    by (simp add: ex_world_def)
  have d: "DAILY_SOURCES ex_config = [(''Down'', ''http://down''), (''A'', ''http://a'')]"
    and wk: "WEEKLY_SOURCES ex_config = []"
    by (simp_all add: ex_config_def)
  have f: "filter (\<lambda>(source_name, feed_url). \<not> isl (http_get ex_world feed_url)) (DAILY_SOURCES ex_config)
           = [(''A'', ''http://a'')]"
    by (simp add: d ex_world_def)
  have c: "ex_config\<lparr>DAILY_SOURCES := [(''A'', ''http://a'')], WEEKLY_SOURCES := []\<rparr>
           = ex_config\<lparr>DAILY_SOURCES := [(''A'', ''http://a'')]\<rparr>"
    by (simp add: ex_config_def)
  from failed_sources_contribute_nothing
    [of ex_world "''http://down''" RequestException ex_settings "''Down''" 24 ex_config False]
  have "fetch_feed ex_world ex_settings ''Down'' ''http://down'' 24 = []"
    and "fetch_all_sources ex_world ex_config False
       = fetch_all_sources ex_world (ex_config\<lparr>DAILY_SOURCES := [(''A'', ''http://a'')]\<rparr>) False"
    using h by (simp_all add: f wk c)
  with h d ex_fetch show ?thesis by simp
qed

section \<open>The minimum score\<close>

text \<open>
  C10. When the environment variable \<open>MIN_RELEVANCE_SCORE\<close> is set to a string that is
  not an integer literal, \<open>fetch_all_sources\<close> raises \<open>ValueError\<close>, whatever the
  configuration holds; when the variable is not set and the configured minimum is a
  number with a fraction, the filter uses that number cut towards zero.
\<close>

theorem min_score_conversion:
  "(MIN_RELEVANCE_SCORE w = Some s \<and> parse_int s = None \<longrightarrow>
      fetch_all_sources w cfg include_weekly = Inl ValueError)
   \<and> (MIN_RELEVANCE_SCORE w = None \<and> min_relevance_score (SETTINGS cfg) = Some (PyFloat r) \<longrightarrow>
      fetch_all_sources w cfg include_weekly =
        Inr (slice_to
               (sort_reverse (relevant (if 0 \<le> r then \<lfloor>r\<rfloor> else \<lceil>r\<rceil>) (scored w cfg include_weekly)))
               (case max_articles_total (SETTINGS cfg) of Some n \<Rightarrow> n | None \<Rightarrow> 25)))"
  by (simp add: fetch_all_sources_def min_score_def Let_def)

text \<open>The override \<open>5.5\<close>, and the configured minimum 5.5 without an override.\<close>

theorem min_score_conversion_witness:
  "parse_int ''5.5'' = None
   \<and> fetch_all_sources (ex_world\<lparr>MIN_RELEVANCE_SCORE := Some ''5.5''\<rparr>) ex_config False = Inl ValueError
   \<and> min_relevance_score (SETTINGS ex_config) = Some (PyFloat (11 / 2))
   \<and> fetch_all_sources ex_world ex_config False =
        Inr (slice_to (sort_reverse (relevant 5 (scored ex_world ex_config False))) 25)"
proof -
  have p: "parse_int ''5.5'' = None" by code_simp
  have e: "MIN_RELEVANCE_SCORE (ex_world\<lparr>MIN_RELEVANCE_SCORE := Some ''5.5''\<rparr>) = Some ''5.5''"
    by simp
  have n: "MIN_RELEVANCE_SCORE ex_world = None" by (simp add: ex_world_def)
  have c: "min_relevance_score (SETTINGS ex_config) = Some (PyFloat (11 / 2))"
    and mx: "max_articles_total (SETTINGS ex_config) = None"
    by (simp_all add: ex_config_def ex_settings_def)
  have fl: "\<lfloor>11 / 2 :: rat\<rfloor> = 5" by (rule floor_unique) simp_all
  from min_score_conversion
    [of "ex_world\<lparr>MIN_RELEVANCE_SCORE := Some ''5.5''\<rparr>" "''5.5''" ex_config False "11 / 2"] p e
  have 1: "fetch_all_sources (ex_world\<lparr>MIN_RELEVANCE_SCORE := Some ''5.5''\<rparr>) ex_config False
           = Inl ValueError"
    by blast
  from min_score_conversion [of ex_world "''''" ex_config False "11 / 2"] n c
  have 2: "fetch_all_sources ex_world ex_config False =
        Inr (slice_to (sort_reverse (relevant 5 (scored ex_world ex_config False))) 25)"
    by (simp add: mx fl)
  from p 1 c 2 show ?thesis by blast
qed

section \<open>Selection\<close>

lemma sort_reverse_sorted:
  "sorted_wrt (\<lambda>a b. relevance_score b \<le> relevance_score a) (sort_reverse xs)"
proof -
  have "sorted (map (\<lambda>x. - relevance_score x) (sort_reverse xs))"
    by (simp add: sort_reverse_def)
  then show ?thesis by (simp add: sorted_map)
qed

lemma sort_reverse_mset: "mset (sort_reverse xs) = mset xs"
  by (simp add: sort_reverse_def)

lemma sort_reverse_stable:
  "filter (\<lambda>a. relevance_score a = v) (sort_reverse xs) = filter (\<lambda>a. relevance_score a = v) xs"
  using sort_key_stable [of "\<lambda>x. - relevance_score x" "- v" xs]
  by (simp add: sort_reverse_def)

lemma slice_to_nonneg: "0 \<le> n \<Longrightarrow> slice_to xs n = take (nat n) xs"
  by (simp add: slice_to_def)

text \<open>
  C2, as the code has it. When the conversion of the minimum score succeeds with \<open>m\<close>
  and \<open>max_articles_total\<close> (25 when absent) is not negative, \<open>fetch_all_sources\<close>
  returns the scored articles with \<open>relevance_score \<ge> m\<close>, sorted by descending score
  with a stable sort (a permutation in which articles of equal score keep their order),
  cut to the first \<open>max_articles_total\<close>. The minimum score is \<open>int()\<close> of the
  environment override when it is present, else \<open>int()\<close> of the configured
  \<open>min_relevance_score\<close>, else 5.
\<close>

theorem fetch_all_sources_selection:
  assumes "min_score w cfg = Inr m"
    and "0 \<le> (case max_articles_total (SETTINGS cfg) of Some n \<Rightarrow> n | None \<Rightarrow> 25)"
  shows "fetch_all_sources w cfg include_weekly =
           Inr (take (nat (case max_articles_total (SETTINGS cfg) of Some n \<Rightarrow> n | None \<Rightarrow> 25))
                  (sort_reverse
                     (filter (\<lambda>a. of_int m \<le> relevance_score a) (scored w cfg include_weekly))))
    \<and> sorted_wrt (\<lambda>a b. relevance_score b \<le> relevance_score a) (sort_reverse xs)
    \<and> mset (sort_reverse xs) = mset xs
    \<and> (\<forall>v. filter (\<lambda>a. relevance_score a = v) (sort_reverse xs)
            = filter (\<lambda>a. relevance_score a = v) xs)
    \<and> min_score w cfg =
        (case MIN_RELEVANCE_SCORE w of
           Some s \<Rightarrow> py_int (PyStr s)
         | None \<Rightarrow> (case min_relevance_score (SETTINGS cfg) of Some v \<Rightarrow> py_int v | None \<Rightarrow> Inr 5))"
proof -
  have 1: "fetch_all_sources w cfg include_weekly =
           Inr (take (nat (case max_articles_total (SETTINGS cfg) of Some n \<Rightarrow> n | None \<Rightarrow> 25))
                  (sort_reverse
                     (filter (\<lambda>a. of_int m \<le> relevance_score a) (scored w cfg include_weekly))))"
    using assms by (simp add: fetch_all_sources_def slice_to_nonneg relevant_def Let_def)
  have 2: "min_score w cfg =
        (case MIN_RELEVANCE_SCORE w of
           Some s \<Rightarrow> py_int (PyStr s)
         | None \<Rightarrow> (case min_relevance_score (SETTINGS cfg) of Some v \<Rightarrow> py_int v | None \<Rightarrow> Inr 5))"
    by (simp add: min_score_def split: option.splits)
  from 1 2 sort_reverse_sorted [of xs] sort_reverse_mset [of xs] sort_reverse_stable [of _ xs]
  show ?thesis by blast
qed

text \<open>
  The configured minimum is not used as it is: with the minimum 5.5 configured and no
  override, an article of score 5 is returned. And a negative \<open>max_articles_total\<close> does
  not bound the length: with \<open>-1\<close> the last of two articles is dropped and one is left.
\<close>

theorem configured_minimum_is_cut:
  "MIN_RELEVANCE_SCORE ex_world = None
   \<and> min_relevance_score (SETTINGS ex_config) = Some (PyFloat (11 / 2))
   \<and> fetch_all_sources ex_world ex_config False = Inr [ex_article1, ex_article2]
   \<and> relevance_score ex_article2 < 11 / 2
   \<and> fetch_all_sources ex_world
        (ex_config\<lparr>SETTINGS := ex_settings\<lparr>max_articles_total := Some (- 1)\<rparr>\<rparr>) False
       = Inr [ex_article1]
   \<and> \<not> int (length [ex_article1]) \<le> - 1"
proof -
  have 1: "MIN_RELEVANCE_SCORE ex_world = None" by (simp add: ex_world_def)
  have 2: "min_relevance_score (SETTINGS ex_config) = Some (PyFloat (11 / 2))"
    by (simp add: ex_config_def ex_settings_def)
  have 3: "relevance_score ex_article2 < 11 / 2" by (simp add: ex_article2_def)
  have 4: "fetch_all_sources ex_world
        (ex_config\<lparr>SETTINGS := ex_settings\<lparr>max_articles_total := Some (- 1)\<rparr>\<rparr>) False
       = Inr [ex_article1]"
    by code_simp
  from 1 2 3 4 ex_fetch show ?thesis by simp
qed

text \<open>The sample run, with minimum 5 and the default maximum.\<close>

theorem fetch_all_sources_selection_witness:
  "min_score ex_world ex_config = Inr 5
   \<and> 0 \<le> (case max_articles_total (SETTINGS ex_config) of Some n \<Rightarrow> n | None \<Rightarrow> 25)
   \<and> fetch_all_sources ex_world ex_config False =
       Inr (take 25 (sort_reverse
         (filter (\<lambda>a. 5 \<le> relevance_score a) (scored ex_world ex_config False))))"
proof -
  have fl: "\<lfloor>11 / 2 :: rat\<rfloor> = 5" by (rule floor_unique) simp_all
  have m: "min_score ex_world ex_config = Inr 5"
    by (simp add: min_score_def ex_world_def ex_config_def ex_settings_def fl)
  have mx: "(case max_articles_total (SETTINGS ex_config) of Some n \<Rightarrow> n | None \<Rightarrow> 25) = 25"
    by (simp add: ex_config_def ex_settings_def)
  have x: "0 \<le> (case max_articles_total (SETTINGS ex_config) of Some n \<Rightarrow> n | None \<Rightarrow> 25)"
    by (simp add: mx)
  from fetch_all_sources_selection [OF m x, of False "[]"] m x show ?thesis
    by (simp add: mx)
qed


section \<open>Grouping in the digests\<close>

lemma group_by_category_eq:
  "group_by_category articles by_category c =
     (if filter (\<lambda>a. category a = c) articles = [] then by_category c
      else Some ((case by_category c of None \<Rightarrow> [] | Some l \<Rightarrow> l)
                   @ filter (\<lambda>a. category a = c) articles))"
proof (induction articles arbitrary: by_category)
  case Nil
  show ?case by simp
next
  case (Cons a rest)
  show ?case
  proof (cases "category a = c")
    case True
    then show ?thesis
      by (cases "by_category c") (simp_all add: Cons.IH)
  next
    case False
    then show ?thesis
      by (cases "by_category (category a)") (simp_all add: Cons.IH)
  qed
qed

lemma group_by_category_empty:
  "group_by_category articles Map.empty c =
     (if filter (\<lambda>a. category a = c) articles = [] then None
      else Some (filter (\<lambda>a. category a = c) articles))"
  by (simp add: group_by_category_eq)

lemma html_categories_eq:
  "html_categories w by_category cs html =
     html @ concat (map (\<lambda>c. case by_category c of
                              None \<Rightarrow> []
                            | Some found \<Rightarrow> ''<h2>'' @ c @ ''</h2>'' @ concat (map (html_article w) found)) cs)"
  by (induction cs arbitrary: html) (simp_all split: option.splits)

lemma text_categories_eq:
  "text_categories w by_category cs lines =
     lines @ concat (map (\<lambda>c. case by_category c of
                              None \<Rightarrow> []
                            | Some found \<Rightarrow>
                                [''\<newline>'' @ triangle @ '' '' @ upper c, replicate 40 (CHR ''-'')]
                                  @ concat (map (text_article w) found)) cs)"
  by (induction cs arbitrary: lines) (simp_all split: option.splits)

lemma html_groups:
  "html_categories w (group_by_category articles Map.empty) cs html =
     html @ concat (map (\<lambda>c. if filter (\<lambda>a. category a = c) articles = [] then []
                            else ''<h2>'' @ c @ ''</h2>''
                              @ concat (map (html_article w) (filter (\<lambda>a. category a = c) articles))) cs)"
proof -
  have "(case group_by_category articles Map.empty c of
           None \<Rightarrow> []
         | Some found \<Rightarrow> ''<h2>'' @ c @ ''</h2>'' @ concat (map (html_article w) found))
        = (if filter (\<lambda>a. category a = c) articles = [] then []
           else ''<h2>'' @ c @ ''</h2>''
             @ concat (map (html_article w) (filter (\<lambda>a. category a = c) articles)))" for c
    by (simp add: group_by_category_empty)
  then show ?thesis by (simp add: html_categories_eq)
qed

lemma text_groups:
  "text_categories w (group_by_category articles Map.empty) cs lines =
     lines @ concat (map (\<lambda>c. if filter (\<lambda>a. category a = c) articles = [] then []
                            else [''\<newline>'' @ triangle @ '' '' @ upper c, replicate 40 (CHR ''-'')]
                              @ concat (map (text_article w) (filter (\<lambda>a. category a = c) articles))) cs)"
proof -
  have "(case group_by_category articles Map.empty c of
           None \<Rightarrow> []
         | Some found \<Rightarrow>
             [''\<newline>'' @ triangle @ '' '' @ upper c, replicate 40 (CHR ''-'')]
               @ concat (map (text_article w) found))
        = (if filter (\<lambda>a. category a = c) articles = [] then []
           else [''\<newline>'' @ triangle @ '' '' @ upper c, replicate 40 (CHR ''-'')]
             @ concat (map (text_article w) (filter (\<lambda>a. category a = c) articles)))" for c
    by (simp add: group_by_category_empty)
  then show ?thesis by (simp add: text_categories_eq)
qed

text \<open>
  C7. Both renderers partition the articles by category, each group keeping the order
  the articles have in the input, emit the groups in the fixed order
  \<open>Higher Ed Specific\<close>, \<open>Strategy & Leadership\<close>, \<open>Policy & Governance\<close>,
  \<open>Enterprise Tech\<close>, \<open>AI/ML Developments\<close>, \<open>General\<close>, a category without article
  being skipped, and emit nothing for an article whose category is not in that list.
\<close>

theorem digests_group_in_fixed_order:
  "generate_html_digest w articles =
     html_head (strftime w (clock w) ''%A, %B %d, %Y'') (str_nat (length articles))
     @ (if articles = [] then html_no_articles
        else concat (map (\<lambda>c. if filter (\<lambda>a. category a = c) articles = [] then []
                            else ''<h2>'' @ c @ ''</h2>''
                              @ concat (map (html_article w) (filter (\<lambda>a. category a = c) articles)))
               [''Higher Ed Specific'', ''Strategy & Leadership'', ''Policy & Governance'',
                ''Enterprise Tech'', ''AI/ML Developments'', ''General'']))
     @ html_footer
   \<and> generate_text_digest w articles =
     join ''\<newline>''
       ([replicate 60 (CHR ''=''),
         ''ENTERPRISE AI DAILY BRIEFING'',
         ''Higher Education Focus '' @ bullet @ '' '' @ strftime w (clock w) ''%A, %B %d, %Y'',
         str_nat (length articles) @ '' high-signal items'',
         replicate 60 (CHR ''=''),
         []]
        @ concat (map (\<lambda>c. if filter (\<lambda>a. category a = c) articles = [] then []
                            else [''\<newline>'' @ triangle @ '' '' @ upper c, replicate 40 (CHR ''-'')]
                              @ concat (map (text_article w) (filter (\<lambda>a. category a = c) articles)))
               [''Higher Ed Specific'', ''Strategy & Leadership'', ''Policy & Governance'',
                ''Enterprise Tech'', ''AI/ML Developments'', ''General''])
        @ [''\<newline>'' @ replicate 60 (CHR ''='')])"
proof -
  have h: "generate_html_digest w articles =
     html_head (strftime w (clock w) ''%A, %B %d, %Y'') (str_nat (length articles))
     @ (if articles = [] then html_no_articles
        else concat (map (\<lambda>c. if filter (\<lambda>a. category a = c) articles = [] then []
                            else ''<h2>'' @ c @ ''</h2>''
                              @ concat (map (html_article w) (filter (\<lambda>a. category a = c) articles)))
               category_order))
     @ html_footer"
    unfolding generate_html_digest_def Let_def html_groups by simp
  have t: "generate_text_digest w articles =
     join ''\<newline>''
       ([replicate 60 (CHR ''=''),
         ''ENTERPRISE AI DAILY BRIEFING'',
         ''Higher Education Focus '' @ bullet @ '' '' @ strftime w (clock w) ''%A, %B %d, %Y'',
         str_nat (length articles) @ '' high-signal items'',
         replicate 60 (CHR ''=''),
         []]
        @ concat (map (\<lambda>c. if filter (\<lambda>a. category a = c) articles = [] then []
                            else [''\<newline>'' @ triangle @ '' '' @ upper c, replicate 40 (CHR ''-'')]
                              @ concat (map (text_article w) (filter (\<lambda>a. category a = c) articles)))
               category_order)
        @ [''\<newline>'' @ replicate 60 (CHR ''='')])"
    unfolding generate_text_digest_def Let_def text_groups by (simp only: append_assoc)
  from h t show ?thesis unfolding category_order_def by (rule conjI)
qed


text \<open>Three articles, the second in a category outside the fixed list: the text digest
  shows the third, then the first, and not the second.\<close>

theorem digests_group_in_fixed_order_witness:
  "generate_text_digest ex_world
     [ex_article1, ex_article1\<lparr>category := ''Research''\<rparr>, ex_article2] =
   join ''\<newline>''
     [replicate 60 (CHR ''=''),
      ''ENTERPRISE AI DAILY BRIEFING'',
      ''Higher Education Focus '' @ bullet @ '' Wednesday, November 04, 2026'',
      ''3 high-signal items'',
      replicate 60 (CHR ''=''),
      [],
      ''\<newline>'' @ triangle @ '' POLICY & GOVERNANCE'',
      replicate 40 (CHR ''-''),
      ''\<newline>'' @ bullet @ '' Board news'',
      ''  [A] Recent | Score: 5'',
      ''  http://a/2'',
      ''\<newline>'' @ triangle @ '' AI/ML DEVELOPMENTS'',
      replicate 40 (CHR ''-''),
      ''\<newline>'' @ bullet @ '' AI on campus'',
      ''  [A] Recent | Score: 18'',
      ''  http://a/1'',
      ''\<newline>'' @ replicate 60 (CHR ''='')]"
  by (subst conjunct2 [OF digests_group_in_fixed_order]) code_simp

section \<open>The digests of no article\<close>

lemma digit_char_0: "digit_char 0 = CHR ''0''"
  by code_simp

lemma html_no_articles_parts:
  \<open>html_no_articles =
     ''<div class="no-articles">'' @ ''No high-relevance articles found today''
       @ ''. Check back tomorrow!</div>''\<close>
  by (simp add: html_no_articles_def)

text \<open>
  C4, on the code. For the empty list of articles, \<open>generate_html_digest\<close> returns the
  page with the message \<open>No high-relevance articles found today\<close>;
  \<open>generate_text_digest\<close> returns the header, with the line \<open>0 high-signal items\<close>, and
  the closing rule, and no message about articles that were not found.
\<close>

theorem empty_text_digest_has_no_message:
  "generate_html_digest w [] =
     html_head (strftime w (clock w) ''%A, %B %d, %Y'') ''0'' @ html_no_articles @ html_footer
   \<and> contains ''No high-relevance articles found today'' (generate_html_digest w [])
   \<and> generate_text_digest w [] =
       join ''\<newline>''
         [replicate 60 (CHR ''=''),
          ''ENTERPRISE AI DAILY BRIEFING'',
          ''Higher Education Focus '' @ bullet @ '' '' @ strftime w (clock w) ''%A, %B %d, %Y'',
          ''0 high-signal items'',
          replicate 60 (CHR ''=''),
          [],
          ''\<newline>'' @ replicate 60 (CHR ''='')]
   \<and> \<not> contains ''article'' (lower (generate_text_digest ex_world []))
   \<and> \<not> contains ''found'' (lower (generate_text_digest ex_world []))"
proof -
  let ?head = "html_head (strftime w (clock w) ''%A, %B %d, %Y'') ''0''"
  have 1: "generate_html_digest w [] = ?head @ html_no_articles @ html_footer"
    by (simp add: generate_html_digest_def digit_char_0)
  have "generate_html_digest w [] =
      (?head @ take 25 html_no_articles) @ ''No high-relevance articles found today''
        @ (''. Check back tomorrow!</div>'' @ html_footer)"
    unfolding 1 by (simp add: html_no_articles_parts)
  then have 2: "contains ''No high-relevance articles found today'' (generate_html_digest w [])"
    unfolding contains_iff by blast
  have 3: "generate_text_digest w [] =
       join ''\<newline>''
         [replicate 60 (CHR ''=''),
          ''ENTERPRISE AI DAILY BRIEFING'',
          ''Higher Education Focus '' @ bullet @ '' '' @ strftime w (clock w) ''%A, %B %d, %Y'',
          ''0 high-signal items'',
          replicate 60 (CHR ''=''),
          [],
          ''\<newline>'' @ replicate 60 (CHR ''='')]"
    by (simp add: generate_text_digest_def category_order_def digit_char_0)
  have 4: "\<not> contains ''article'' (lower (generate_text_digest ex_world []))"
    by code_simp
  have 5: "\<not> contains ''found'' (lower (generate_text_digest ex_world []))"
    by code_simp
  from 1 2 3 4 5 show ?thesis by blast
qed

end
